theory Spec2Isabelle
  imports Main "HOL-Library.Word"
begin

section \<open>The Redis cache store of persistence/redis.go\<close>

text \<open>
  The adapter \<open>RedisStore\<close> translates the cache operations Set, Add, Replace, Get,
  Delete, Increment, Decrement and Flush into commands of a Redis client. The theory
  embeds every method of the file as a function on an explicit store state. The Redis
  client and server are outside the file; they are modelled by an in-memory key-value
  state with the commands the adapter calls.
\<close>

subsection \<open>Go values\<close>

text \<open>
  \<open>time.Duration\<close> is a count of nanoseconds; the adapter only compares durations and
  passes them on, so they are integers here. \<open>int64\<close> and \<open>uint64\<close> are 64-bit words:
  the conversions \<open>int64(x)\<close> and \<open>uint64(x)\<close> keep the bits, \<open>+\<close> wraps, \<open>sint\<close> reads
  a word as \<open>int64\<close> and \<open>uint\<close> as \<open>uint64\<close>; the order \<open><\<close> on words is the unsigned
  one. Keys and stored values are byte strings.
\<close>

type_synonym duration = int
type_synonym int64 = "64 word"
type_synonym uint64 = "64 word"
type_synonym bytes = string

text \<open>A byte slice \<open>[]byte\<close> is \<open>nil\<close> (\<open>None\<close>) or holds bytes.\<close>

type_synonym slice = "bytes option"

fun slice_bytes :: "slice \<Rightarrow> bytes" where
  "slice_bytes None = []"
| "slice_bytes (Some b) = b"

text \<open>
  A value of type \<open>interface{}\<close>: the nil interface, an interface holding a \<open>[]byte\<close>
  (not the nil interface, also when the slice is nil), or one holding any other value.
\<close>

datatype 'a iface = NilIface | BytesIface slice | ValIface 'a

text \<open>The comparison \<open>value == nil\<close> on an interface value.\<close>

fun is_nil :: "'a iface \<Rightarrow> bool" where
  "is_nil NilIface = True"
| "is_nil (BytesIface s) = False"
| "is_nil (ValIface v) = False"

text \<open>
  The errors: \<open>ErrCacheMiss\<close> and \<open>ErrNotStored\<close> of the package, \<open>redis.Nil\<close> of the
  client, and the failures of the collaborators (connection, \<open>strconv\<close>, an error reply of
  the server, serialization), each with its message.
\<close>

datatype error =
    ErrCacheMiss
  | ErrNotStored
  | RedisNil
  | IOError string
  | NumError string
  | ReplyError string
  | SerializeError string

subsection \<open>Decimal integers\<close>

text \<open>
  The client writes an \<open>int64\<close> argument as its decimal digits (\<open>strconv.AppendInt\<close>,
  which takes each digit from the table \<open>"0123456789"\<close>) and
  \<open>Int64()\<close> reads a reply with \<open>strconv.ParseInt(s, 10, 64)\<close>: an optional sign, then at
  least one decimal digit and nothing else, and a value in the \<open>int64\<close> range. The
  error is a \<open>*strconv.NumError\<close>; of its fields the model keeps a message, syntax or
  range, and gives syntax when both apply.
\<close>

definition digit_char :: "nat \<Rightarrow> char" where
  "digit_char d = ''0123456789'' ! d"

definition is_digit :: "char \<Rightarrow> bool" where
  "is_digit c = (48 \<le> (of_char c :: nat) \<and> (of_char c :: nat) \<le> 57)"

definition digit_val :: "char \<Rightarrow> nat" where
  "digit_val c = of_char c - 48"

fun format_nat :: "nat \<Rightarrow> string" where
  "format_nat n = (if n < 10 then [digit_char n] else format_nat (n div 10) @ [digit_char (n mod 10)])"

declare format_nat.simps [simp del]

definition format_int64 :: "int64 \<Rightarrow> string" where
  "format_int64 v = (if sint v < 0 then CHR ''-'' # format_nat (nat (- sint v)) else format_nat (nat (sint v)))"

definition digits_val :: "string \<Rightarrow> nat" where
  "digits_val ds = foldl (\<lambda>a c. 10 * a + digit_val c) 0 ds"

definition parse_digits :: "bool \<Rightarrow> string \<Rightarrow> error + int64" where
  "parse_digits neg ds =
     (if ds = [] then Inl (NumError ''invalid syntax'')
      else if \<not> list_all is_digit ds then Inl (NumError ''invalid syntax'')
      else if neg then
        (if digits_val ds \<le> 2 ^ 63 then Inr (word_of_int (- int (digits_val ds)))
         else Inl (NumError ''value out of range''))
      else
        (if digits_val ds < 2 ^ 63 then Inr (word_of_int (int (digits_val ds)))
         else Inl (NumError ''value out of range'')))"

fun ParseInt :: "string \<Rightarrow> error + int64" where
  "ParseInt [] = Inl (NumError ''invalid syntax'')"
| "ParseInt (c # cs) =
     (if c = CHR ''+'' then parse_digits False cs
      else if c = CHR ''-'' then parse_digits True cs
      else parse_digits False (c # cs))"

subsection \<open>The Redis client\<close>

text \<open>
  The state behind the client: the entries of the server, each with the value bytes and the
  expiration duration the client was given for it (\<open>0\<close>: none), and the connection, which
  is up (\<open>None\<close>) or fails every command with an error.
\<close>

record entry =
  val :: bytes
  ttl :: duration

record redis =
  entries :: "string \<rightharpoonup> entry"
  failure :: "string option"

text \<open>The arguments the adapter sends as a value: a byte slice or an \<open>int64\<close>.\<close>

datatype arg = ArgBytes slice | ArgInt64 int64

fun arg_bytes :: "arg \<Rightarrow> bytes" where
  "arg_bytes (ArgBytes s) = slice_bytes s"
| "arg_bytes (ArgInt64 n) = format_int64 n"

text \<open>\<open>Set(key, value, expiration).Err()\<close>: an unconditional write.\<close>

definition redis_Set :: "redis \<Rightarrow> string \<Rightarrow> arg \<Rightarrow> duration \<Rightarrow> error option \<times> redis" where
  "redis_Set r key v expiration =
     (case failure r of
        Some m \<Rightarrow> (Some (IOError m), r)
      | None \<Rightarrow> (None, r\<lparr>entries := (entries r)(key \<mapsto> \<lparr>val = arg_bytes v, ttl = expiration\<rparr>)\<rparr>))"

text \<open>\<open>SetNX(key, value, expiration).Result()\<close>: a write only if the key is absent.\<close>

definition redis_SetNX :: "redis \<Rightarrow> string \<Rightarrow> arg \<Rightarrow> duration \<Rightarrow> (error + bool) \<times> redis" where
  "redis_SetNX r key v expiration =
     (case failure r of
        Some m \<Rightarrow> (Inl (IOError m), r)
      | None \<Rightarrow>
          (case entries r key of
             Some e \<Rightarrow> (Inr False, r)
           | None \<Rightarrow> (Inr True, r\<lparr>entries := (entries r)(key \<mapsto> \<lparr>val = arg_bytes v, ttl = expiration\<rparr>)\<rparr>)))"

text \<open>\<open>Exists(key).Val()\<close>: the number of the keys that exist; \<open>Val\<close> drops the error and is 0 then.\<close>

definition redis_Exists_Val :: "redis \<Rightarrow> string \<Rightarrow> int" where
  "redis_Exists_Val r key =
     (case failure r of
        Some m \<Rightarrow> 0
      | None \<Rightarrow> (case entries r key of Some e \<Rightarrow> 1 | None \<Rightarrow> 0))"

text \<open>\<open>Get(key)\<close>, read with \<open>Bytes()\<close> or with \<open>Int64()\<close>; an absent key is \<open>redis.Nil\<close>.\<close>

definition redis_Get :: "redis \<Rightarrow> string \<Rightarrow> error + bytes" where
  "redis_Get r key =
     (case failure r of
        Some m \<Rightarrow> Inl (IOError m)
      | None \<Rightarrow> (case entries r key of None \<Rightarrow> Inl RedisNil | Some e \<Rightarrow> Inr (val e)))"

definition redis_Get_Bytes :: "redis \<Rightarrow> string \<Rightarrow> error + bytes" where
  "redis_Get_Bytes r key = redis_Get r key"

definition redis_Get_Int64 :: "redis \<Rightarrow> string \<Rightarrow> error + int64" where
  "redis_Get_Int64 r key = (case redis_Get r key of Inl err \<Rightarrow> Inl err | Inr s \<Rightarrow> ParseInt s)"

text \<open>\<open>Del(key).Result()\<close>: the number of keys removed.\<close>

definition redis_Del :: "redis \<Rightarrow> string \<Rightarrow> (error + int) \<times> redis" where
  "redis_Del r key =
     (case failure r of
        Some m \<Rightarrow> (Inl (IOError m), r)
      | None \<Rightarrow>
          (case entries r key of
             None \<Rightarrow> (Inr 0, r)
           | Some e \<Rightarrow> (Inr 1, r\<lparr>entries := (entries r)(key := None)\<rparr>)))"

text \<open>
  \<open>DecrBy(key, decrement).Result()\<close>. The server reads the value as a canonical decimal
  \<open>int64\<close>, the form \<open>format_int64\<close> writes (an absent key counts as 0), refuses the
  decrement \<open>- 2 ^ 63\<close> and a result outside the \<open>int64\<close> range, and writes the new
  value back, keeping the expiration of the key. On an error the result is \<open>(0, err)\<close>.
\<close>

definition server_int :: "bytes \<Rightarrow> int64 option" where
  "server_int s = (case ParseInt s of Inl err \<Rightarrow> None | Inr v \<Rightarrow> if format_int64 v = s then Some v else None)"

definition redis_DecrBy :: "redis \<Rightarrow> string \<Rightarrow> int64 \<Rightarrow> (int64 \<times> error option) \<times> redis" where
  "redis_DecrBy r key decrement =
     (case failure r of
        Some m \<Rightarrow> ((0, Some (IOError m)), r)
      | None \<Rightarrow>
          (case (case entries r key of None \<Rightarrow> Some (0, 0) | Some e \<Rightarrow> map_option (\<lambda>v. (v, ttl e)) (server_int (val e))) of
             None \<Rightarrow> ((0, Some (ReplyError ''ERR value is not an integer or out of range'')), r)
           | Some (old, t) \<Rightarrow>
               if sint decrement = - (2 ^ 63)
               then ((0, Some (ReplyError ''ERR decrement would overflow'')), r)
               else if sint old - sint decrement < - (2 ^ 63)
               then ((0, Some (ReplyError ''ERR increment or decrement would overflow'')), r)
               else if 2 ^ 63 \<le> sint old - sint decrement
               then ((0, Some (ReplyError ''ERR increment or decrement would overflow'')), r)
               else ((old - decrement, None),
                     r\<lparr>entries := (entries r)(key \<mapsto> \<lparr>val = format_int64 (old - decrement), ttl = t\<rparr>)\<rparr>)))"

text \<open>\<open>FlushAll().Err()\<close>: every key is removed.\<close>

definition redis_FlushAll :: "redis \<Rightarrow> error option \<times> redis" where
  "redis_FlushAll r =
     (case failure r of
        Some m \<Rightarrow> (Some (IOError m), r)
      | None \<Rightarrow> (None, r\<lparr>entries := Map.empty\<rparr>))"

subsection \<open>The store\<close>

record RedisStore =
  client :: redis
  defaultExpiration :: duration

text \<open>
  The declarations of the package that redis.go uses and does not contain are parameters:
  the two expiration sentinels \<open>DEFAULT\<close> and \<open>FOREVER\<close> (distinct constants, as the cases
  of one \<open>switch\<close>), and the serialization pair of \<open>utils\<close>. \<open>Deserialize\<close> returns the
  value it puts into the destination.
\<close>

record 'a pkg =
  DEFAULT :: duration
  FOREVER :: duration
  Serialize :: "'a iface \<Rightarrow> error + slice"
  Deserialize :: "bytes \<Rightarrow> error + 'a iface"

definition expval :: "'a pkg \<Rightarrow> RedisStore \<Rightarrow> duration \<Rightarrow> duration" where
  "expval P c expires =
     (if expires = DEFAULT P then defaultExpiration c
      else if expires = FOREVER P then 0
      else expires)"

definition Set :: "'a pkg \<Rightarrow> RedisStore \<Rightarrow> string \<Rightarrow> 'a iface \<Rightarrow> duration \<Rightarrow> error option \<times> RedisStore" where
  "Set P c key value expires =
     (case Serialize P value of
        Inl err \<Rightarrow> (Some err, c)
      | Inr b \<Rightarrow>
          (case redis_Set (client c) key (ArgBytes b) (expval P c expires) of
             (err, r) \<Rightarrow> (err, c\<lparr>client := r\<rparr>)))"

definition Add :: "'a pkg \<Rightarrow> RedisStore \<Rightarrow> string \<Rightarrow> 'a iface \<Rightarrow> duration \<Rightarrow> error option \<times> RedisStore" where
  "Add P c key value expires =
     (case Serialize P value of
        Inl err \<Rightarrow> (Some err, c)
      | Inr b \<Rightarrow>
          (case redis_SetNX (client c) key (ArgBytes b) (expval P c expires) of
             (Inl err, r) \<Rightarrow> (Some err, c\<lparr>client := r\<rparr>)
           | (Inr stored, r) \<Rightarrow>
               if \<not> stored then (Some ErrNotStored, c\<lparr>client := r\<rparr>)
               else (None, c\<lparr>client := r\<rparr>)))"

text \<open>
  In \<open>Replace\<close> the variable \<open>value\<close> is the \<open>interface{}\<close> parameter, assigned the
  \<open>[]byte\<close> that \<open>Serialize\<close> returns; it is compared with \<open>nil\<close> and passed to \<open>Set\<close>
  together with the expiration already resolved by \<open>expval\<close>.
\<close>

definition Replace :: "'a pkg \<Rightarrow> RedisStore \<Rightarrow> string \<Rightarrow> 'a iface \<Rightarrow> duration \<Rightarrow> error option \<times> RedisStore" where
  "Replace P c key value expires =
     (case Serialize P value of
        Inl err \<Rightarrow> (Some err, c)
      | Inr b \<Rightarrow>
          if redis_Exists_Val (client c) key = 0 then (Some ErrNotStored, c)
          else if is_nil (BytesIface b :: 'a iface) then (Some ErrNotStored, c)
          else Set P c key (BytesIface b) (expval P c expires))"

definition Get :: "'a pkg \<Rightarrow> RedisStore \<Rightarrow> string \<Rightarrow> error + 'a iface" where
  "Get P c key =
     (case redis_Get_Bytes (client c) key of
        Inl err \<Rightarrow> if err = RedisNil then Inl ErrCacheMiss else Inl err
      | Inr v \<Rightarrow> Deserialize P v)"

definition Delete :: "RedisStore \<Rightarrow> string \<Rightarrow> error option \<times> RedisStore" where
  "Delete c key =
     (case redis_Del (client c) key of
        (Inl err, r) \<Rightarrow> (Some err, c\<lparr>client := r\<rparr>)
      | (Inr del, r) \<Rightarrow>
          if del = 0 then (Some ErrCacheMiss, c\<lparr>client := r\<rparr>)
          else (None, c\<lparr>client := r\<rparr>))"

definition Increment :: "RedisStore \<Rightarrow> string \<Rightarrow> uint64 \<Rightarrow> (uint64 \<times> error option) \<times> RedisStore" where
  "Increment c key delta =
     (case redis_Get_Int64 (client c) key of
        Inl err \<Rightarrow> if err = RedisNil then ((0, Some ErrCacheMiss), c) else ((0, Some err), c)
      | Inr v \<Rightarrow>
          (let sum = v + delta in
           case redis_Set (client c) key (ArgInt64 sum) 0 of
             (Some err, r) \<Rightarrow> ((0, Some err), c\<lparr>client := r\<rparr>)
           | (None, r) \<Rightarrow> ((sum, None), c\<lparr>client := r\<rparr>)))"

definition Decrement :: "RedisStore \<Rightarrow> string \<Rightarrow> uint64 \<Rightarrow> (uint64 \<times> error option) \<times> RedisStore" where
  "Decrement c key delta =
     (case redis_Get_Int64 (client c) key of
        Inl err \<Rightarrow> if err = RedisNil then ((0, Some ErrCacheMiss), c) else ((0, Some err), c)
      | Inr v \<Rightarrow>
          (let delta' = (if delta > v then v else delta) in
           case redis_DecrBy (client c) key delta' of
             ((tempint, err), r) \<Rightarrow> ((tempint, err), c\<lparr>client := r\<rparr>)))"

definition Flush :: "RedisStore \<Rightarrow> error option \<times> RedisStore" where
  "Flush c = (case redis_FlushAll (client c) of (err, r) \<Rightarrow> (err, c\<lparr>client := r\<rparr>))"

subsection \<open>Reading the state\<close>

definition connected :: "RedisStore \<Rightarrow> bool" where
  "connected c = (failure (client c) = None)"

definition stored :: "RedisStore \<Rightarrow> string \<Rightarrow> entry option" where
  "stored c key = entries (client c) key"

subsection \<open>Instances for the examples\<close>

text \<open>
  An instance of the package parameters over string values, with the sentinels of the
  package, \<open>DEFAULT = time.Duration(0)\<close> and \<open>FOREVER = time.Duration(-1)\<close>: a byte
  slice is serialized as itself, a string as its bytes, and the nil interface is refused.
\<close>

definition example_pkg :: "string pkg" where
  "example_pkg =
     \<lparr>DEFAULT = 0, FOREVER = - 1,
      Serialize = (\<lambda>v. case v of
                      NilIface \<Rightarrow> Inl (SerializeError ''cannot encode nil value'')
                    | BytesIface s \<Rightarrow> Inr s
                    | ValIface x \<Rightarrow> Inr (Some x)),
      Deserialize = (\<lambda>b. Inr (ValIface b))\<rparr>"

text \<open>
  A connected store with a default expiration of one hour that holds the one key \<open>k\<close>
  with the value \<open>s\<close> and an expiration of 30 seconds, and the same store with the
  connection down.
\<close>

definition example_store :: "bytes \<Rightarrow> RedisStore" where
  "example_store s =
     \<lparr>client = \<lparr>entries = [''k'' \<mapsto> \<lparr>val = s, ttl = 30000000000\<rparr>], failure = None\<rparr>,
      defaultExpiration = 3600000000000\<rparr>"

definition down_store :: "bytes \<Rightarrow> RedisStore" where
  "down_store s =
     \<lparr>client = \<lparr>entries = [''k'' \<mapsto> \<lparr>val = s, ttl = 30000000000\<rparr>], failure = Some ''connection refused''\<rparr>,
      defaultExpiration = 3600000000000\<rparr>"

section \<open>Decimal integers: what is written is read back\<close>

lemma digit_char_props:
  assumes "d < 10"
  shows "is_digit (digit_char d)" and "digit_val (digit_char d) = d"
    and "digit_char d \<noteq> CHR ''+''" and "digit_char d \<noteq> CHR ''-''"
proof -
  from assms have "d \<in> {0, 1, 2, 3, 4, 5, 6, 7, 8, 9}" by auto
  then have "is_digit (digit_char d) \<and> digit_val (digit_char d) = d
     \<and> digit_char d \<noteq> CHR ''+'' \<and> digit_char d \<noteq> CHR ''-''"
    by (auto simp: digit_char_def is_digit_def digit_val_def)
  then show "is_digit (digit_char d)" and "digit_val (digit_char d) = d"
    and "digit_char d \<noteq> CHR ''+''" and "digit_char d \<noteq> CHR ''-''"
    by simp_all
qed

lemma digits_val_snoc: "digits_val (ds @ [c]) = 10 * digits_val ds + digit_val c"
  by (simp add: digits_val_def)

lemma format_nat_props:
  "format_nat n \<noteq> [] \<and> list_all is_digit (format_nat n) \<and> digits_val (format_nat n) = n
   \<and> hd (format_nat n) \<noteq> CHR ''+'' \<and> hd (format_nat n) \<noteq> CHR ''-''"
proof (induction n rule: format_nat.induct)
  case (1 n)
  show ?case
  proof (cases "n < 10")
    case True
    then have "format_nat n = [digit_char n]" by (simp add: format_nat.simps)
    then show ?thesis using digit_char_props [OF True] by (simp add: digits_val_def)
  next
    case False
    then have eq: "format_nat n = format_nat (n div 10) @ [digit_char (n mod 10)]"
      by (subst format_nat.simps) simp
    have m: "n mod 10 < 10" by simp
    from False 1 have IH: "format_nat (n div 10) \<noteq> [] \<and> list_all is_digit (format_nat (n div 10)) \<and> digits_val (format_nat (n div 10)) = n div 10
   \<and> hd (format_nat (n div 10)) \<noteq> CHR ''+'' \<and> hd (format_nat (n div 10)) \<noteq> CHR ''-''" by simp
    show ?thesis using IH digit_char_props [OF m]
      by (simp add: eq digits_val_snoc)
  qed
qed

lemma parse_digits_valid:
  assumes "ds \<noteq> []" and "list_all is_digit ds" and "digits_val ds = n"
  shows "parse_digits neg ds =
     (if neg then (if n \<le> 2 ^ 63 then Inr (word_of_int (- int n)) else Inl (NumError ''value out of range''))
      else (if n < 2 ^ 63 then Inr (word_of_int (int n)) else Inl (NumError ''value out of range'')))"
  using assms(1,2) unfolding parse_digits_def assms(3) [symmetric] by simp

lemma parse_digits_format_nat:
  "parse_digits neg (format_nat n) =
     (if neg then (if n \<le> 2 ^ 63 then Inr (word_of_int (- int n)) else Inl (NumError ''value out of range''))
      else (if n < 2 ^ 63 then Inr (word_of_int (int n)) else Inl (NumError ''value out of range'')))"
  using format_nat_props [of n] by (intro parse_digits_valid) simp_all

lemma ParseInt_format_nat: "ParseInt (format_nat n) = parse_digits False (format_nat n)"
proof -
  obtain c cs where eq: "format_nat n = c # cs"
    using format_nat_props [of n] by (cases "format_nat n") auto
  then have "c \<noteq> CHR ''+''" "c \<noteq> CHR ''-''" using format_nat_props [of n] by auto
  then show ?thesis by (simp add: eq)
qed

lemma ParseInt_format_int64: "ParseInt (format_int64 v) = Inr v"
proof (cases "sint v < 0")
  case True
  have lo: "- (2 ^ 63) \<le> sint v" using sint_ge [of v] by simp
  then have "nat (- sint v) \<le> 2 ^ 63" by simp
  moreover have "- int (nat (- sint v)) = sint v" using True by simp
  ultimately show ?thesis using True
    by (simp add: format_int64_def parse_digits_format_nat)
next
  case False
  have "sint v < 2 ^ 63" using sint_lt [of v] by simp
  then have "nat (sint v) < 2 ^ 63" using False by simp
  moreover have "int (nat (sint v)) = sint v" using False by simp
  ultimately show ?thesis using False
    by (simp add: format_int64_def ParseInt_format_nat parse_digits_format_nat)
qed

lemma server_int_format_int64: "server_int (format_int64 v) = Some v"
  by (simp add: server_int_def ParseInt_format_int64)

section \<open>Words as signed and unsigned integers\<close>

lemma sint_cases: "sint (w :: 64 word) = (if uint w < 2 ^ 63 then uint w else uint w - 2 ^ 64)"
proof -
  have b: "0 \<le> uint w" "uint w < 2 ^ 64" using uint_lt2p [of w] by simp_all
  have s: "sint w = (uint w + 2 ^ 63) mod 2 ^ 64 - 2 ^ 63"
    by (simp add: sint_uint signed_take_bit_eq_take_bit_shift take_bit_eq_mod)
  show ?thesis
  proof (cases "uint w < 2 ^ 63")
    case True
    then have "(uint w + 2 ^ 63) mod 2 ^ 64 = uint w + 2 ^ 63"
      using b by (intro mod_pos_pos_trivial) simp_all
    then show ?thesis using True s by simp
  next
    case False
    have "(uint w + 2 ^ 63) mod 2 ^ 64 = (uint w + 2 ^ 63 - 2 ^ 64) mod 2 ^ 64"
      by (simp only: minus_mod_self2)
    also have "\<dots> = uint w + 2 ^ 63 - 2 ^ 64"
      using False b by (intro mod_pos_pos_trivial) simp_all
    finally show ?thesis using False s by simp
  qed
qed

lemma uint_nonneg_sint: "0 \<le> sint (w :: 64 word) \<Longrightarrow> uint w = sint w \<and> uint w < 2 ^ 63"
  using uint_lt2p [of w] by (simp add: sint_cases split: if_splits)

lemma uint_neg_sint: "sint (w :: 64 word) < 0 \<Longrightarrow> uint w = sint w + 2 ^ 64 \<and> 2 ^ 63 \<le> uint w"
  using uint_ge_0 [of w] by (simp add: sint_cases split: if_splits)

lemma sint_small_uint: "uint (w :: 64 word) < 2 ^ 63 \<Longrightarrow> sint w = uint w"
  by (simp add: sint_cases)

lemma sint_large_uint: "2 ^ 63 \<le> uint (w :: 64 word) \<Longrightarrow> sint w = uint w - 2 ^ 64"
  by (simp add: sint_cases)

lemma uint_sub_64: "uint y \<le> uint x \<Longrightarrow> uint (x - y) = uint x - uint (y :: 64 word)"
  by (simp add: uint_sub_if_size)

lemma uint_add_exact:
  assumes "0 \<le> sint v + uint delta" and "sint v + uint delta < 2 ^ 64"
  shows "uint (v + delta :: 64 word) = sint v + uint delta"
proof (cases "sint v < 0")
  case True
  with assms uint_neg_sint [of v] show ?thesis by (simp add: uint_plus_if_size word_size)
next
  case False
  with assms uint_nonneg_sint [of v] show ?thesis by (simp add: uint_plus_if_size word_size)
qed


lemma sint_add_exact:
  assumes lt: "sint v + uint delta < 2 ^ 63"
  shows "sint (v + delta :: 64 word) = sint v + uint delta"
proof (cases "sint v < 0")
  case True
  note u = uint_neg_sint [OF True]
  show ?thesis
  proof (cases "uint v + uint delta < 2 ^ 64")
    case True
    then have s: "uint (v + delta) = uint v + uint delta" by (simp add: uint_plus_if_size word_size)
    have "2 ^ 63 \<le> uint v + uint delta" using u uint_ge_0 [of delta] by linarith
    then have "2 ^ 63 \<le> uint (v + delta)" using s by simp
    then have "sint (v + delta) = uint (v + delta) - 2 ^ 64" by (rule sint_large_uint)
    then show ?thesis using s u by simp
  next
    case False
    then have s: "uint (v + delta) = uint v + uint delta - 2 ^ 64" by (simp add: uint_plus_if_size word_size)
    then have "uint (v + delta) < 2 ^ 63" using u lt by simp
    then have "sint (v + delta) = uint (v + delta)" by (rule sint_small_uint)
    then show ?thesis using s u by simp
  qed
next
  case False
  then have u: "uint v = sint v \<and> uint v < 2 ^ 63" using uint_nonneg_sint [of v] by simp
  then have s: "uint (v + delta) = uint v + uint delta" using lt by (simp add: uint_plus_if_size word_size)
  then have "uint (v + delta) < 2 ^ 63" using u lt by simp
  then have "sint (v + delta) = uint (v + delta)" by (rule sint_small_uint)
  then show ?thesis using s u by simp
qed

lemma uint_add_mod: "uint (v + delta :: 64 word) = (sint v + uint delta) mod 2 ^ 64"
proof -
  have u: "uint (v + delta) = (uint v + uint delta) mod 2 ^ 64"
    by (simp add: uint_word_ariths)
  show ?thesis
  proof (cases "uint v < 2 ^ 63")
    case True
    then have "sint v = uint v" by (rule sint_small_uint)
    then show ?thesis using u by simp
  next
    case False
    then have "2 ^ 63 \<le> uint v" by simp
    then have "sint v = uint v - 2 ^ 64" by (rule sint_large_uint)
    then have "sint v + uint delta = uint v + uint delta - 2 ^ 64" by simp
    then have "(sint v + uint delta) mod 2 ^ 64 = (uint v + uint delta - 2 ^ 64) mod 2 ^ 64"
      by (rule arg_cong)
    also have "\<dots> = (uint v + uint delta) mod 2 ^ 64" by (simp only: minus_mod_self2)
    finally show ?thesis using u by simp
  qed
qed

lemma sint_mod_uint: "sint (w :: 64 word) mod 2 ^ 64 = uint w"
proof (cases "uint w < 2 ^ 63")
  case True
  then have "sint w = uint w" by (rule sint_small_uint)
  moreover have "uint w mod 2 ^ 64 = uint w"
    using uint_lt2p [of w] by (intro mod_pos_pos_trivial) simp_all
  ultimately show ?thesis by simp
next
  case False
  then have "2 ^ 63 \<le> uint w" by simp
  then have "sint w = uint w - 2 ^ 64" by (rule sint_large_uint)
  then have "sint w mod 2 ^ 64 = (uint w - 2 ^ 64) mod 2 ^ 64" by (rule arg_cong)
  also have "\<dots> = uint w mod 2 ^ 64" by (simp only: minus_mod_self2)
  also have "\<dots> = uint w"
    using uint_lt2p [of w] by (intro mod_pos_pos_trivial) simp_all
  finally show ?thesis .
qed

lemma sint_add_mod: "sint (v + delta :: 64 word) mod 2 ^ 64 = (sint v + uint delta) mod 2 ^ 64"
  by (simp only: sint_mod_uint uint_add_mod)

section \<open>The commands of the client on a connected store\<close>

lemma redis_Get_Int64_stored:
  "failure r = None \<Longrightarrow> entries r key = Some e \<Longrightarrow> redis_Get_Int64 r key = ParseInt (val e)"
  by (simp add: redis_Get_Int64_def redis_Get_def)

lemma redis_Get_Int64_absent:
  "failure r = None \<Longrightarrow> entries r key = None \<Longrightarrow> redis_Get_Int64 r key = Inl RedisNil"
  by (simp add: redis_Get_Int64_def redis_Get_def)

lemma ParseInt_error: "ParseInt s = Inl err \<Longrightarrow> \<exists>m. err = NumError m"
  by (cases s) (auto simp: parse_digits_def split: if_splits)

lemma ParseInt_not_Nil: "ParseInt s \<noteq> Inl RedisNil"
  using ParseInt_error [of s RedisNil] by auto

lemma Decrement_stored:
  assumes "connected c" and "stored c key = Some e" and "val e = format_int64 v"
    and "d = (if v < delta then v else delta)"
    and "sint d \<noteq> - (2 ^ 63)" and "- (2 ^ 63) \<le> sint v - sint d" and "sint v - sint d < 2 ^ 63"
  shows "Decrement c key delta =
     ((v - d, None),
      c\<lparr>client := (client c)\<lparr>entries := (entries (client c))(key \<mapsto> \<lparr>val = format_int64 (v - d), ttl = ttl e\<rparr>)\<rparr>\<rparr>)"
proof -
  have g: "redis_Get_Int64 (client c) key = Inr v"
    using assms(1-3) by (simp add: connected_def stored_def redis_Get_Int64_stored ParseInt_format_int64)
  have r: "redis_DecrBy (client c) key d =
     ((v - d, None), (client c)\<lparr>entries := (entries (client c))(key \<mapsto> \<lparr>val = format_int64 (v - d), ttl = ttl e\<rparr>)\<rparr>)"
    using assms(1-3,5-7)
    by (simp add: redis_DecrBy_def connected_def stored_def server_int_format_int64)
  show ?thesis
    unfolding Decrement_def g using r assms(4) by (simp add: Let_def)
qed

section \<open>Increment\<close>

lemma Increment_stored:
  assumes "connected c" and "stored c key = Some e" and "ParseInt (val e) = Inr v"
  shows "Increment c key delta =
     ((v + delta, None),
      c\<lparr>client := (client c)\<lparr>entries := (entries (client c))(key \<mapsto> \<lparr>val = format_int64 (v + delta), ttl = 0\<rparr>)\<rparr>\<rparr>)"
  using assms
  by (simp add: Increment_def connected_def stored_def redis_Get_Int64_stored redis_Set_def Let_def)

text \<open>
  C5: for every key present in a connected store whose value reads as an integer \<open>v\<close>,
  whatever expiration the key had, \<open>Increment\<close> returns \<open>v + delta\<close> and writes it back
  with the expiration 0, that is without expiration: the expiration the key had is not kept.
\<close>

theorem Increment_writes_without_expiration:
  "connected c \<Longrightarrow> stored c key = Some e \<Longrightarrow> ParseInt (val e) = Inr v \<Longrightarrow>
     fst (Increment c key delta) = (v + delta, None) \<and>
     stored (snd (Increment c key delta)) key = Some \<lparr>val = format_int64 (v + delta), ttl = 0\<rparr>"
  by (simp add: Increment_stored stored_def)

theorem Increment_writes_without_expiration_witness:
  "stored (example_store ''5'') ''k'' = Some \<lparr>val = ''5'', ttl = 30000000000\<rparr> \<and>
   fst (Increment (example_store ''5'') ''k'' 3) = (8, None) \<and>
   stored (snd (Increment (example_store ''5'') ''k'' 3)) ''k'' = Some \<lparr>val = ''8'', ttl = 0\<rparr>"
proof -
  have h1: "connected (example_store ''5'')" by (simp add: connected_def example_store_def)
  have h2: "stored (example_store ''5'') ''k'' = Some \<lparr>val = ''5'', ttl = 30000000000\<rparr>"
    by (simp add: stored_def example_store_def)
  have h3: "ParseInt (val \<lparr>val = ''5'', ttl = 30000000000\<rparr>) = Inr 5"
    by (simp add: parse_digits_def is_digit_def digits_val_def digit_val_def)
  have f: "format_int64 (5 + 3) = ''8''"
    by (simp add: format_int64_def format_nat.simps digit_char_def)
  from Increment_writes_without_expiration [OF h1 h2 h3, of 3]
  have "fst (Increment (example_store ''5'') ''k'' 3) = (5 + 3, None)"
    and "stored (snd (Increment (example_store ''5'') ''k'' 3)) ''k'' = Some \<lparr>val = ''8'', ttl = 0\<rparr>"
    unfolding f by blast+
  with h2 show ?thesis by simp
qed

text \<open>
  C6, as the code has it: on a connected store, \<open>Increment\<close> on an absent key fails with
  \<open>ErrCacheMiss\<close>, and on a key whose value is not integer-shaped it fails with the error
  of the integer conversion. On a key whose value reads as the integer \<open>v\<close> it succeeds;
  it stores \<open>v + delta\<close> when \<open>v + delta < 2 ^ 63\<close> and returns \<open>v + delta\<close> when
  \<open>0 \<le> v + delta < 2 ^ 64\<close>. In general the number stored is the \<open>int64\<close> and the
  number returned the \<open>uint64\<close> that agrees with \<open>v + delta\<close> modulo \<open>2 ^ 64\<close>.
\<close>

theorem Increment_results:
  "connected c \<Longrightarrow>
     (stored c key = None \<longrightarrow> Increment c key delta = ((0, Some ErrCacheMiss), c)) \<and>
     (stored c key = Some e \<and> ParseInt (val e) = Inl err \<longrightarrow>
        Increment c key delta = ((0, Some err), c) \<and> (\<exists>m. err = NumError m)) \<and>
     (stored c key = Some e \<and> ParseInt (val e) = Inr v \<longrightarrow>
        fst (Increment c key delta) = (v + delta, None) \<and>
        map_option val (stored (snd (Increment c key delta)) key) = Some (format_int64 (v + delta)) \<and>
        ParseInt (format_int64 (v + delta)) = Inr (v + delta) \<and>
        uint (v + delta) = (sint v + uint delta) mod 2 ^ 64 \<and>
        sint (v + delta) mod 2 ^ 64 = (sint v + uint delta) mod 2 ^ 64 \<and>
        (0 \<le> sint v + uint delta \<and> sint v + uint delta < 2 ^ 64 \<longrightarrow>
           uint (v + delta) = sint v + uint delta) \<and>
        (sint v + uint delta < 2 ^ 63 \<longrightarrow> sint (v + delta) = sint v + uint delta))"
proof (intro conjI impI)
  assume c: "connected c"
  show "Increment c key delta = ((0, Some ErrCacheMiss), c)" if "stored c key = None"
    using c that by (simp add: Increment_def connected_def stored_def redis_Get_Int64_absent)
  show "Increment c key delta = ((0, Some err), c)" if "stored c key = Some e \<and> ParseInt (val e) = Inl err"
    using c that ParseInt_not_Nil [of "val e"]
    by (auto simp: Increment_def connected_def stored_def redis_Get_Int64_stored)
  show "\<exists>m. err = NumError m" if "stored c key = Some e \<and> ParseInt (val e) = Inl err"
    using that ParseInt_error by blast
  show "fst (Increment c key delta) = (v + delta, None)" if "stored c key = Some e \<and> ParseInt (val e) = Inr v"
    using c that by (simp add: Increment_stored)
  show "map_option val (stored (snd (Increment c key delta)) key) = Some (format_int64 (v + delta))"
    if "stored c key = Some e \<and> ParseInt (val e) = Inr v"
    using c that by (simp add: Increment_stored stored_def)
  show "ParseInt (format_int64 (v + delta)) = Inr (v + delta)"
    by (rule ParseInt_format_int64)
  show "uint (v + delta) = (sint v + uint delta) mod 2 ^ 64"
    by (rule uint_add_mod)
  show "sint (v + delta) mod 2 ^ 64 = (sint v + uint delta) mod 2 ^ 64"
    by (rule sint_add_mod)
  show "uint (v + delta) = sint v + uint delta"
    if "0 \<le> sint v + uint delta \<and> sint v + uint delta < 2 ^ 64"
    using that by (simp add: uint_add_exact)
  show "sint (v + delta) = sint v + uint delta" if "sint v + uint delta < 2 ^ 63"
    using that by (rule sint_add_exact)
qed

theorem Increment_results_witness:
  "Increment (example_store ''5'') ''missing'' 3 = ((0, Some ErrCacheMiss), example_store ''5'') \<and>
   Increment (example_store ''abc'') ''k'' 3 = ((0, Some (NumError ''invalid syntax'')), example_store ''abc'') \<and>
   0 \<le> sint (5 :: int64) + uint (3 :: uint64) \<and> sint (5 :: int64) + uint (3 :: uint64) < 2 ^ 63 \<and>
   fst (Increment (example_store ''5'') ''k'' 3) = (8, None) \<and>
   map_option val (stored (snd (Increment (example_store ''5'') ''k'' 3)) ''k'') = Some ''8'' \<and>
   uint (fst (fst (Increment (example_store ''5'') ''k'' 3))) = 5 + 3 \<and>
   sint (fst (fst (Increment (example_store ''5'') ''k'' 3))) = 5 + 3"
proof -
  have c5: "connected (example_store ''5'')" and ca: "connected (example_store ''abc'')"
    by (simp_all add: connected_def example_store_def)
  have m: "stored (example_store ''5'') ''missing'' = None"
    by (simp add: stored_def example_store_def)
  have a: "stored (example_store ''abc'') ''k'' = Some \<lparr>val = ''abc'', ttl = 30000000000\<rparr>
      \<and> ParseInt (val \<lparr>val = ''abc'', ttl = 30000000000\<rparr>) = Inl (NumError ''invalid syntax'')"
    by (simp add: stored_def example_store_def parse_digits_def is_digit_def)
  have k: "stored (example_store ''5'') ''k'' = Some \<lparr>val = ''5'', ttl = 30000000000\<rparr>
      \<and> ParseInt (val \<lparr>val = ''5'', ttl = 30000000000\<rparr>) = Inr 5"
    by (simp add: stored_def example_store_def parse_digits_def is_digit_def digits_val_def digit_val_def)
  have r: "0 \<le> sint (5 :: int64) + uint (3 :: uint64) \<and> sint (5 :: int64) + uint (3 :: uint64) < 2 ^ 64"
    and r': "sint (5 :: int64) + uint (3 :: uint64) < 2 ^ 63"
    by simp_all
  have s: "sint (5 :: int64) + uint (3 :: uint64) = 5 + 3" by simp
  have f: "format_int64 (5 + 3) = ''8''"
    by (simp add: format_int64_def format_nat.simps digit_char_def)
  have 1: "Increment (example_store ''5'') ''missing'' 3 = ((0, Some ErrCacheMiss), example_store ''5'')"
    using Increment_results [OF c5, where key = "''missing''" and delta = 3] m by blast
  have 2: "Increment (example_store ''abc'') ''k'' 3 = ((0, Some (NumError ''invalid syntax'')), example_store ''abc'')"
    using Increment_results [OF ca, where key = "''k''" and e = "\<lparr>val = ''abc'', ttl = 30000000000\<rparr>"
        and err = "NumError ''invalid syntax''" and delta = 3] a
    by blast
  have 3: "fst (Increment (example_store ''5'') ''k'' 3) = (5 + 3, None) \<and>
     map_option val (stored (snd (Increment (example_store ''5'') ''k'' 3)) ''k'') = Some (format_int64 (5 + 3)) \<and>
     uint (5 + 3 :: uint64) = sint (5 :: int64) + uint (3 :: uint64) \<and>
     sint (5 + 3 :: int64) = sint (5 :: int64) + uint (3 :: uint64)"
    using Increment_results [OF c5, where key = "''k''" and e = "\<lparr>val = ''5'', ttl = 30000000000\<rparr>"
        and v = 5 and delta = 3] k r r'
    by blast
  then have 4: "fst (fst (Increment (example_store ''5'') ''k'' 3)) = 5 + 3" by simp
  from 1 2 3 r r' show ?thesis unfolding 4 f s by simp
qed

text \<open>
  The claim C6 as it is written covers every stored integer and every delta. On a key that
  stores \<open>-5\<close> a delta of 3 stores \<open>-2\<close> and the result is \<open>uint64(-2)\<close>, not
  \<open>-5 + 3\<close>; on a key that stores \<open>2 ^ 63 - 1\<close> a delta of 1 stores \<open>- 2 ^ 63\<close>.
\<close>

theorem Increment_sum_counterexample:
  "stored (example_store ''-5'') ''k'' = Some \<lparr>val = ''-5'', ttl = 30000000000\<rparr> \<and>
   ParseInt ''-5'' = Inr (- 5) \<and>
   fst (Increment (example_store ''-5'') ''k'' 3) = (18446744073709551614, None) \<and>
   uint (fst (fst (Increment (example_store ''-5'') ''k'' 3))) \<noteq> - 5 + 3 \<and>
   ParseInt ''9223372036854775807'' = Inr 9223372036854775807 \<and>
   map_option val (stored (snd (Increment (example_store ''9223372036854775807'') ''k'' 1)) ''k'') =
     Some ''-9223372036854775808''"
proof -
  have c: "connected (example_store ''-5'')" and c': "connected (example_store ''9223372036854775807'')"
    by (simp_all add: connected_def example_store_def)
  have k: "stored (example_store ''-5'') ''k'' = Some \<lparr>val = ''-5'', ttl = 30000000000\<rparr>"
    and k': "stored (example_store ''9223372036854775807'') ''k'' =
      Some \<lparr>val = ''9223372036854775807'', ttl = 30000000000\<rparr>"
    by (simp_all add: stored_def example_store_def)
  have p: "ParseInt ''-5'' = Inr (- 5)"
    and p': "ParseInt ''9223372036854775807'' = Inr 9223372036854775807"
    by (simp_all add: parse_digits_def is_digit_def digits_val_def digit_val_def)
  have e: "(- 5 + 3 :: uint64) = 18446744073709551614" by simp
  have f: "format_int64 (9223372036854775807 + 1) = ''-9223372036854775808''"
    by (simp add: format_int64_def format_nat.simps digit_char_def)
  have 1: "fst (Increment (example_store ''-5'') ''k'' 3) = (18446744073709551614, None)"
    using Increment_stored [OF c k, of "- 5" 3] p e by simp
  have 2: "map_option val (stored (snd (Increment (example_store ''9223372036854775807'') ''k'' 1)) ''k'') =
     Some ''-9223372036854775808''"
    using Increment_stored [OF c' k', of 9223372036854775807 1] p' f by (simp add: stored_def)
  show ?thesis using k p p' 1 2 by simp
qed

section \<open>Decrement\<close>

text \<open>
  C3, as the code has it: \<open>Decrement\<close> on an absent key of a connected store fails with
  \<open>ErrCacheMiss\<close>. On a key that stores the integer \<open>v\<close> with \<open>0 \<le> v\<close>, a delta
  above \<open>v\<close> is reduced to \<open>v\<close>, the value of the server is decremented by that delta
  with its expiration kept, and the new value \<open>v - min delta v\<close> is returned; it is never
  negative.
\<close>

theorem Decrement_clamps_at_zero:
  "connected c \<Longrightarrow>
     (stored c key = None \<longrightarrow> Decrement c key delta = ((0, Some ErrCacheMiss), c)) \<and>
     (stored c key = Some e \<and> val e = format_int64 v \<and> 0 \<le> sint v \<longrightarrow>
        fst (Decrement c key delta) = (v - (if v < delta then v else delta), None) \<and>
        uint (fst (fst (Decrement c key delta))) = sint v - min (uint delta) (sint v) \<and>
        sint (fst (fst (Decrement c key delta))) = sint v - min (uint delta) (sint v) \<and>
        stored (snd (Decrement c key delta)) key =
          Some \<lparr>val = format_int64 (v - (if v < delta then v else delta)), ttl = ttl e\<rparr>)"
proof (intro conjI impI)
  assume c: "connected c"
  show "Decrement c key delta = ((0, Some ErrCacheMiss), c)" if "stored c key = None"
    using c that by (simp add: Decrement_def connected_def stored_def redis_Get_Int64_absent)
  assume h: "stored c key = Some e \<and> val e = format_int64 v \<and> 0 \<le> sint v"
  define d where "d = (if v < delta then v else delta)"
  have uv: "uint v = sint v" and vb: "uint v < 2 ^ 63"
    using h uint_nonneg_sint [of v] by simp_all
  have ud: "uint d = min (uint delta) (uint v)"
    by (simp add: d_def word_less_def min_def)
  then have le: "uint d \<le> uint v" by simp
  then have "uint d < 2 ^ 63" using vb by linarith
  then have sd: "sint d = uint d" by (rule sint_small_uint)
  have sub: "uint (v - d) = uint v - uint d" using le by (rule uint_sub_64)
  then have "uint (v - d) < 2 ^ 63" using vb uint_ge_0 [of d] by linarith
  then have ssub: "sint (v - d) = uint (v - d)" by (rule sint_small_uint)
  have nn: "0 \<le> sint d" using sd by simp
  have r1: "sint d \<noteq> - (2 ^ 63)" using nn by simp
  have r2: "- (2 ^ 63) \<le> sint v - sint d" using sd uv le by simp
  have r3: "sint v - sint d < 2 ^ 63" using nn uv vb by simp
  have D: "Decrement c key delta =
     ((v - d, None),
      c\<lparr>client := (client c)\<lparr>entries := (entries (client c))(key \<mapsto> \<lparr>val = format_int64 (v - d), ttl = ttl e\<rparr>)\<rparr>\<rparr>)"
    using c h d_def r1 r2 r3 by (intro Decrement_stored) simp_all
  show "fst (Decrement c key delta) = (v - (if v < delta then v else delta), None)"
    by (simp add: D d_def)
  show "uint (fst (fst (Decrement c key delta))) = sint v - min (uint delta) (sint v)"
    using sub ud uv by (simp add: D)
  show "sint (fst (fst (Decrement c key delta))) = sint v - min (uint delta) (sint v)"
    using ssub sub ud uv by (simp add: D)
  show "stored (snd (Decrement c key delta)) key =
          Some \<lparr>val = format_int64 (v - (if v < delta then v else delta)), ttl = ttl e\<rparr>"
    by (simp add: D d_def stored_def)
qed

theorem Decrement_clamps_at_zero_witness:
  "Decrement (example_store ''3'') ''missing'' 10 = ((0, Some ErrCacheMiss), example_store ''3'') \<and>
   fst (Decrement (example_store ''3'') ''k'' 10) = (0, None) \<and>
   stored (snd (Decrement (example_store ''3'') ''k'' 10)) ''k'' = Some \<lparr>val = ''0'', ttl = 30000000000\<rparr>"
proof -
  have c: "connected (example_store ''3'')" by (simp add: connected_def example_store_def)
  have m: "stored (example_store ''3'') ''missing'' = None"
    by (simp add: stored_def example_store_def)
  have f3: "format_int64 3 = ''3''" and f0: "format_int64 0 = ''0''"
    by (simp_all add: format_int64_def format_nat.simps digit_char_def)
  have k: "stored (example_store ''3'') ''k'' = Some \<lparr>val = ''3'', ttl = 30000000000\<rparr>
      \<and> val \<lparr>val = ''3'', ttl = 30000000000\<rparr> = format_int64 3 \<and> 0 \<le> sint (3 :: int64)"
    by (simp add: stored_def example_store_def f3)
  have w: "(if (3 :: int64) < 10 then 3 else 10) = 3" by simp
  have 1: "Decrement (example_store ''3'') ''missing'' 10 = ((0, Some ErrCacheMiss), example_store ''3'')"
    using Decrement_clamps_at_zero [OF c, where key = "''missing''" and delta = 10] m by blast
  have 2: "fst (Decrement (example_store ''3'') ''k'' 10) = (3 - (if (3 :: int64) < 10 then 3 else 10), None) \<and>
     stored (snd (Decrement (example_store ''3'') ''k'' 10)) ''k'' =
       Some \<lparr>val = format_int64 (3 - (if (3 :: int64) < 10 then 3 else 10)), ttl = ttl \<lparr>val = ''3'', ttl = 30000000000\<rparr>\<rparr>"
    using Decrement_clamps_at_zero [OF c, where key = "''k''" and delta = 10 and v = 3
        and e = "\<lparr>val = ''3'', ttl = 30000000000\<rparr>"] k
    by blast
  from 1 2 show ?thesis unfolding w by (simp add: f0)
qed

text \<open>
  The claim C3 as it is written covers every stored integer. On a key that stores \<open>-5\<close>
  a delta of 1 is not reduced (the comparison reads \<open>-5\<close> as \<open>uint64\<close>), the value
  becomes \<open>-6\<close> and the result is \<open>uint64(-6)\<close>, not \<open>-5 - min 1 (-5) = 0\<close>.
\<close>

theorem Decrement_clamp_counterexample:
  "stored (example_store ''-5'') ''k'' = Some \<lparr>val = format_int64 (- 5), ttl = 30000000000\<rparr> \<and>
   fst (Decrement (example_store ''-5'') ''k'' 1) = (- 6, None) \<and>
   uint (fst (fst (Decrement (example_store ''-5'') ''k'' 1))) = 18446744073709551610 \<and>
   uint (fst (fst (Decrement (example_store ''-5'') ''k'' 1))) \<noteq> - 5 - min 1 (- 5)"
proof -
  have c: "connected (example_store ''-5'')" by (simp add: connected_def example_store_def)
  have s5: "sint (- 5 :: int64) = - 5" by simp
  have f: "format_int64 (- 5) = ''-5''"
    by (simp add: format_int64_def format_nat.simps digit_char_def)
  have k: "stored (example_store ''-5'') ''k'' = Some \<lparr>val = format_int64 (- 5), ttl = 30000000000\<rparr>"
    by (simp add: stored_def example_store_def f)
  have d: "(1 :: int64) = (if (- 5 :: int64) < 1 then - 5 else 1)"
    by (simp add: word_less_def)
  have D: "fst (Decrement (example_store ''-5'') ''k'' 1) = (- 5 - 1, None)"
    by (subst Decrement_stored [OF c k _ d]) simp_all
  have u: "uint (- 6 :: int64) = 18446744073709551610" by simp
  show ?thesis using k D u by simp
qed

text \<open>
  C4, as the code has it: on a key of a connected store that stores a negative integer \<open>v\<close>,
  a delta below \<open>2 ^ 63\<close> for which \<open>v - delta\<close> is an \<open>int64\<close> is not reduced
  (as \<open>uint64\<close>, \<open>v\<close> is at least \<open>2 ^ 63\<close>); the value of the server becomes
  \<open>v - delta\<close>, and the result is that negative number read as \<open>uint64\<close>, which is
  \<open>2 ^ 64 + (v - delta)\<close> and is not zero.
\<close>

theorem Decrement_negative_value:
  "connected c \<Longrightarrow> stored c key = Some e \<Longrightarrow> val e = format_int64 v \<Longrightarrow> sint v < 0 \<Longrightarrow>
   uint delta < 2 ^ 63 \<Longrightarrow> - (2 ^ 63) \<le> sint v - uint delta \<Longrightarrow>
     \<not> v < delta \<and>
     fst (Decrement c key delta) = (v - delta, None) \<and>
     stored (snd (Decrement c key delta)) key = Some \<lparr>val = format_int64 (v - delta), ttl = ttl e\<rparr> \<and>
     sint (v - delta) = sint v - uint delta \<and>
     uint (v - delta) = 2 ^ 64 + (sint v - uint delta) \<and>
     v - delta \<noteq> 0"
proof -
  assume c: "connected c" and k: "stored c key = Some e" and f: "val e = format_int64 v"
    and neg: "sint v < 0" and small: "uint delta < 2 ^ 63" and lo: "- (2 ^ 63) \<le> sint v - uint delta"
  have uv: "uint v = sint v + 2 ^ 64" and big: "2 ^ 63 \<le> uint v"
    using uint_neg_sint [OF neg] by simp_all
  have le: "uint delta \<le> uint v" using small big by linarith
  then have nlt: "\<not> v < delta" by (simp add: word_less_def)
  have sd: "sint delta = uint delta" using small by (rule sint_small_uint)
  have sub: "uint (v - delta) = uint v - uint delta" using le by (rule uint_sub_64)
  have "2 ^ 63 \<le> uint v - uint delta" using uv lo by simp
  then have big': "2 ^ 63 \<le> uint (v - delta)" using sub by simp
  then have "sint (v - delta) = uint (v - delta) - 2 ^ 64" by (rule sint_large_uint)
  then have ssub: "sint (v - delta) = sint v - uint delta" using sub uv by simp
  have usub: "uint (v - delta) = 2 ^ 64 + (sint v - uint delta)" using sub uv by simp
  have nz: "v - delta \<noteq> 0"
  proof
    assume "v - delta = 0"
    then have "uint (v - delta) = 0" by simp
    then show False using big' by simp
  qed
  have d: "delta = (if v < delta then v else delta)" using nlt by simp
  have nn: "0 \<le> sint delta" using sd by simp
  have r1: "sint delta \<noteq> - (2 ^ 63)" using nn by simp
  have r2: "- (2 ^ 63) \<le> sint v - sint delta" using lo sd by simp
  have r3: "sint v - sint delta < 2 ^ 63" using neg nn by simp
  have D: "Decrement c key delta =
     ((v - delta, None),
      c\<lparr>client := (client c)\<lparr>entries := (entries (client c))(key \<mapsto> \<lparr>val = format_int64 (v - delta), ttl = ttl e\<rparr>)\<rparr>\<rparr>)"
    using c k f d r1 r2 r3 by (rule Decrement_stored)
  show ?thesis using nlt ssub usub nz by (simp add: D stored_def)
qed

theorem Decrement_negative_value_witness:
  "stored (example_store ''-5'') ''k'' = Some \<lparr>val = ''-5'', ttl = 30000000000\<rparr> \<and>
   fst (Decrement (example_store ''-5'') ''k'' 3) = (- 8, None) \<and>
   stored (snd (Decrement (example_store ''-5'') ''k'' 3)) ''k'' = Some \<lparr>val = ''-8'', ttl = 30000000000\<rparr> \<and>
   uint (- 8 :: uint64) = 18446744073709551608"
proof -
  have c: "connected (example_store ''-5'')" by (simp add: connected_def example_store_def)
  have k: "stored (example_store ''-5'') ''k'' = Some \<lparr>val = ''-5'', ttl = 30000000000\<rparr>"
    by (simp add: stored_def example_store_def)
  have f: "val \<lparr>val = ''-5'', ttl = 30000000000\<rparr> = format_int64 (- 5)"
    and f8: "format_int64 (- 5 - 3) = ''-8''"
    by (simp_all add: format_int64_def format_nat.simps digit_char_def)
  have neg: "sint (- 5 :: int64) < 0" by simp
  have small: "uint (3 :: uint64) < 2 ^ 63" by simp
  have lo: "- (2 ^ 63) \<le> sint (- 5 :: int64) - uint (3 :: uint64)" by simp
  from Decrement_negative_value [OF c k f neg small lo]
  have "fst (Decrement (example_store ''-5'') ''k'' 3) = (- 5 - 3, None)"
    and "stored (snd (Decrement (example_store ''-5'') ''k'' 3)) ''k'' = Some \<lparr>val = ''-8'', ttl = 30000000000\<rparr>"
    unfolding f8 by simp_all
  with k show ?thesis by simp
qed

text \<open>
  The claim C4 as it is written covers every positive delta. On a key that stores \<open>-1\<close>
  the delta \<open>2 ^ 64 - 1\<close> is \<open>uint64(-1)\<close>; as \<open>int64\<close> the decrement is \<open>-1\<close>, the
  value of the server becomes 0 and the result is 0.
\<close>

theorem Decrement_negative_counterexample:
  "stored (example_store ''-1'') ''k'' = Some \<lparr>val = format_int64 (- 1), ttl = 30000000000\<rparr> \<and>
   sint (- 1 :: int64) < 0 \<and> (0 :: uint64) < 18446744073709551615 \<and>
   fst (Decrement (example_store ''-1'') ''k'' 18446744073709551615) = (0, None) \<and>
   stored (snd (Decrement (example_store ''-1'') ''k'' 18446744073709551615)) ''k'' =
     Some \<lparr>val = ''0'', ttl = 30000000000\<rparr>"
proof -
  have c: "connected (example_store ''-1'')" by (simp add: connected_def example_store_def)
  have f: "format_int64 (- 1) = ''-1''" and f0: "format_int64 0 = ''0''"
    by (simp_all add: format_int64_def format_nat.simps digit_char_def)
  have k: "stored (example_store ''-1'') ''k'' = Some \<lparr>val = format_int64 (- 1), ttl = 30000000000\<rparr>"
    by (simp add: stored_def example_store_def f)
  have e: "(18446744073709551615 :: uint64) = - 1" by simp
  have d: "(- 1 :: int64) = (if (- 1 :: int64) < - 1 then - 1 else - 1)" by simp
  have D: "Decrement (example_store ''-1'') ''k'' (- 1) =
     ((- 1 - (- 1), None),
      (example_store ''-1'')\<lparr>client := (client (example_store ''-1''))\<lparr>entries :=
         (entries (client (example_store ''-1'')))(''k'' \<mapsto> \<lparr>val = format_int64 (- 1 - (- 1)), ttl = ttl \<lparr>val = format_int64 (- 1), ttl = 30000000000\<rparr>\<rparr>)\<rparr>\<rparr>)"
    by (rule Decrement_stored [OF c k _ d]) simp_all
  have p: "(0 :: uint64) < 18446744073709551615" by (simp add: word_less_def)
  show ?thesis using k p unfolding e D by (simp add: stored_def f0)
qed

section \<open>Get and Delete\<close>

text \<open>
  C10: for every key that is not in a connected store, \<open>Get\<close> fails with \<open>ErrCacheMiss\<close>:
  the \<open>redis.Nil\<close> of the client is mapped to it. Any other error of the client is
  returned as it is, so with the connection down \<open>Get\<close> returns the connection error.
\<close>

theorem Get_absent_is_CacheMiss:
  "(connected c \<and> stored c key = None \<longrightarrow> Get P c key = Inl ErrCacheMiss) \<and>
   (redis_Get_Bytes (client c) key = Inl RedisNil \<longrightarrow> Get P c key = Inl ErrCacheMiss) \<and>
   (redis_Get_Bytes (client c) key = Inl err \<and> err \<noteq> RedisNil \<longrightarrow> Get P c key = Inl err) \<and>
   (failure (client c) = Some m \<longrightarrow> Get P c key = Inl (IOError m))"
  by (simp add: Get_def redis_Get_Bytes_def redis_Get_def connected_def stored_def)

theorem Get_absent_is_CacheMiss_witness:
  "Get example_pkg (example_store ''old'') ''missing'' = Inl ErrCacheMiss \<and>
   Get example_pkg (down_store ''old'') ''missing'' = Inl (IOError ''connection refused'')"
proof -
  have a: "connected (example_store ''old'') \<and> stored (example_store ''old'') ''missing'' = None"
    by (simp add: connected_def stored_def example_store_def)
  have b: "failure (client (down_store ''old'')) = Some ''connection refused''"
    by (simp add: down_store_def)
  have c: "redis_Get_Bytes (client (down_store ''old'')) ''missing'' = Inl (IOError ''connection refused'')
      \<and> IOError ''connection refused'' \<noteq> RedisNil"
    by (simp add: down_store_def redis_Get_Bytes_def redis_Get_def)
  have d: "redis_Get_Bytes (client (example_store ''old'')) ''missing'' = Inl RedisNil"
    by (simp add: example_store_def redis_Get_Bytes_def redis_Get_def)
  show ?thesis
    using Get_absent_is_CacheMiss [where P = example_pkg and c = "example_store ''old''" and key = "''missing''"]
      Get_absent_is_CacheMiss [where P = example_pkg and c = "down_store ''old''" and key = "''missing''"
        and err = "IOError ''connection refused''" and m = "''connection refused''"]
      a b c d
    by blast
qed

text \<open>
  C9: on a connected store, \<open>Delete\<close> on an absent key (the client removed 0 keys) fails with
  \<open>ErrCacheMiss\<close> and changes nothing; \<open>Delete\<close> on a present key succeeds and removes
  that key and no other, and a \<open>Get\<close> of the key after it fails with \<open>ErrCacheMiss\<close>.
\<close>

theorem Delete_then_Get:
  "connected c \<Longrightarrow>
     (stored c key = None \<longrightarrow> Delete c key = (Some ErrCacheMiss, c)) \<and>
     (stored c key = Some e \<longrightarrow>
        fst (Delete c key) = None \<and>
        stored (snd (Delete c key)) = (stored c)(key := None) \<and>
        Get P (snd (Delete c key)) key = Inl ErrCacheMiss)"
  by (auto simp: Delete_def redis_Del_def Get_def redis_Get_Bytes_def redis_Get_def
      connected_def stored_def fun_eq_iff)

theorem Delete_then_Get_witness:
  "Delete (example_store ''old'') ''missing'' = (Some ErrCacheMiss, example_store ''old'') \<and>
   fst (Delete (example_store ''old'') ''k'') = None \<and>
   stored (snd (Delete (example_store ''old'') ''k'')) ''k'' = None \<and>
   Get example_pkg (snd (Delete (example_store ''old'') ''k'')) ''k'' = Inl ErrCacheMiss"
proof -
  have c: "connected (example_store ''old'')" by (simp add: connected_def example_store_def)
  have m: "stored (example_store ''old'') ''missing'' = None"
    and k: "stored (example_store ''old'') ''k'' = Some \<lparr>val = ''old'', ttl = 30000000000\<rparr>"
    by (simp_all add: stored_def example_store_def)
  have 1: "Delete (example_store ''old'') ''missing'' = (Some ErrCacheMiss, example_store ''old'')"
    using Delete_then_Get [OF c, where key = "''missing''"] m by blast
  have 2: "fst (Delete (example_store ''old'') ''k'') = None \<and>
        stored (snd (Delete (example_store ''old'') ''k'')) = (stored (example_store ''old''))(''k'' := None) \<and>
        Get example_pkg (snd (Delete (example_store ''old'') ''k'')) ''k'' = Inl ErrCacheMiss"
    using Delete_then_Get [OF c, where key = "''k''" and P = example_pkg] k by blast
  from 1 2 show ?thesis by simp
qed

section \<open>Set, Add and Replace\<close>

lemma Set_connected:
  "connected c \<Longrightarrow> Serialize P v = Inr b \<Longrightarrow>
     Set P c key v expires =
       (None, c\<lparr>client := (client c)\<lparr>entries := (entries (client c))(key \<mapsto>
          \<lparr>val = slice_bytes b, ttl = expval P c expires\<rparr>)\<rparr>\<rparr>)"
  by (simp add: Set_def redis_Set_def connected_def)

lemma Add_absent:
  "connected c \<Longrightarrow> Serialize P v = Inr b \<Longrightarrow> stored c key = None \<Longrightarrow>
     Add P c key v expires =
       (None, c\<lparr>client := (client c)\<lparr>entries := (entries (client c))(key \<mapsto>
          \<lparr>val = slice_bytes b, ttl = expval P c expires\<rparr>)\<rparr>\<rparr>)"
  by (simp add: Add_def redis_SetNX_def connected_def stored_def)

lemma Replace_present:
  "connected c \<Longrightarrow> Serialize P v = Inr b \<Longrightarrow> stored c key = Some e \<Longrightarrow>
     Replace P c key v expires = Set P c key (BytesIface b) (expval P c expires)"
  by (simp add: Replace_def redis_Exists_Val_def connected_def stored_def)

lemma Replace_absent:
  "connected c \<Longrightarrow> Serialize P v = Inr b \<Longrightarrow> stored c key = None \<Longrightarrow>
     Replace P c key v expires = (Some ErrNotStored, c)"
  by (simp add: Replace_def redis_Exists_Val_def connected_def stored_def)

text \<open>Resolving an expiration a second time changes it in exactly two cases.\<close>

lemma expval_twice:
  "expval P c (expval P c e) = expval P c e \<longleftrightarrow>
     \<not> (e = FOREVER P \<and> FOREVER P \<noteq> DEFAULT P \<and> DEFAULT P = 0 \<and> defaultExpiration c \<noteq> 0) \<and>
     \<not> (e = DEFAULT P \<and> defaultExpiration c \<noteq> DEFAULT P \<and> defaultExpiration c = FOREVER P \<and> FOREVER P \<noteq> 0)"
  by (auto simp: expval_def)

lemma Replace_resolves_twice:
  "connected c \<Longrightarrow> Serialize P v = Inr b \<Longrightarrow> Serialize P (BytesIface b) = Inr b' \<Longrightarrow>
   stored c key = Some e \<Longrightarrow>
     Replace P c key v expires =
       (None, c\<lparr>client := (client c)\<lparr>entries := (entries (client c))(key \<mapsto>
          \<lparr>val = slice_bytes b', ttl = expval P c (expval P c expires)\<rparr>)\<rparr>\<rparr>)"
  by (simp add: Replace_present Set_connected)

text \<open>
  C7: when \<open>Deserialize\<close> gives back the value from the bytes \<open>Serialize\<close> made of it,
  a \<open>Set\<close> of a key and a value that succeeds is followed by a \<open>Get\<close> of the key that
  succeeds with that value.
\<close>

theorem Set_then_Get:
  "fst (Set P c key v expires) = None \<Longrightarrow>
   (\<forall>b. Serialize P v = Inr b \<longrightarrow> Deserialize P (slice_bytes b) = Inr v) \<Longrightarrow>
     Get P (snd (Set P c key v expires)) key = Inr v"
  by (auto simp: Set_def redis_Set_def Get_def redis_Get_Bytes_def redis_Get_def
      split: sum.splits option.splits)

theorem Set_then_Get_witness:
  "fst (Set example_pkg (example_store ''old'') ''k'' (ValIface ''new'') 0) = None \<and>
   Get example_pkg (snd (Set example_pkg (example_store ''old'') ''k'' (ValIface ''new'') 0)) ''k'' =
     Inr (ValIface ''new'')"
proof -
  have h1: "fst (Set example_pkg (example_store ''old'') ''k'' (ValIface ''new'') 0) = None"
    by (simp add: Set_def redis_Set_def example_pkg_def example_store_def)
  have h2: "\<forall>b. Serialize example_pkg (ValIface ''new'') = Inr b \<longrightarrow>
      Deserialize example_pkg (slice_bytes b) = Inr (ValIface ''new'')"
    by (auto simp: example_pkg_def)
  show ?thesis using Set_then_Get [OF h1 h2] h1 by simp
qed

text \<open>
  C8: for every key that is present in the store and every value, \<open>Add\<close> does not succeed
  and leaves the store as it was, so the value and the expiration of the key are those
  before the call; the error is \<open>ErrNotStored\<close> whenever the value is serialized and the
  client is connected.
\<close>

theorem Add_present_NotStored:
  "stored c key = Some e \<Longrightarrow>
     snd (Add P c key v expires) = c \<and>
     stored (snd (Add P c key v expires)) key = Some e \<and>
     fst (Add P c key v expires) \<noteq> None \<and>
     (connected c \<and> Serialize P v = Inr b \<longrightarrow> fst (Add P c key v expires) = Some ErrNotStored)"
  by (auto simp: Add_def redis_SetNX_def connected_def stored_def split: sum.splits option.splits)

theorem Add_present_NotStored_witness:
  "Add example_pkg (example_store ''old'') ''k'' (ValIface ''new'') 0 = (Some ErrNotStored, example_store ''old'') \<and>
   stored (example_store ''old'') ''k'' = Some \<lparr>val = ''old'', ttl = 30000000000\<rparr>"
proof -
  have k: "stored (example_store ''old'') ''k'' = Some \<lparr>val = ''old'', ttl = 30000000000\<rparr>"
    by (simp add: stored_def example_store_def)
  have h: "connected (example_store ''old'') \<and> Serialize example_pkg (ValIface ''new'') = Inr (Some ''new'')"
    by (simp add: connected_def example_store_def example_pkg_def)
  have "snd (Add example_pkg (example_store ''old'') ''k'' (ValIface ''new'') 0) = example_store ''old'' \<and>
     fst (Add example_pkg (example_store ''old'') ''k'' (ValIface ''new'') 0) = Some ErrNotStored"
    using Add_present_NotStored [OF k, where P = example_pkg and v = "ValIface ''new''" and b = "Some ''new''"
        and expires = 0] h
    by blast
  then show ?thesis using k by (simp add: prod_eq_iff)
qed

text \<open>
  C1, on the code: with the sentinels \<open>DEFAULT = 0\<close> and \<open>FOREVER = -1\<close> and a default
  expiration of one hour, \<open>Set\<close> with \<open>FOREVER\<close> writes the key without expiration, and
  \<open>Replace\<close> with \<open>FOREVER\<close> writes it with the default expiration: \<open>Replace\<close> resolves
  the sentinel to 0 and passes that to \<open>Set\<close>, which resolves 0, the \<open>DEFAULT\<close> sentinel,
  again.
\<close>

theorem Replace_FOREVER_expires:
  "stored (snd (Set example_pkg (example_store ''old'') ''k'' (ValIface ''new'') (FOREVER example_pkg))) ''k'' =
     Some \<lparr>val = ''new'', ttl = 0\<rparr> \<and>
   fst (Replace example_pkg (example_store ''old'') ''k'' (ValIface ''new'') (FOREVER example_pkg)) = None \<and>
   stored (snd (Replace example_pkg (example_store ''old'') ''k'' (ValIface ''new'') (FOREVER example_pkg))) ''k'' =
     Some \<lparr>val = ''new'', ttl = 3600000000000\<rparr>"
  by (simp add: Replace_def Set_def redis_Set_def redis_Exists_Val_def expval_def stored_def
      example_pkg_def example_store_def)

text \<open>
  C2, on the code: a nil byte slice is serialized as the nil slice, an empty value.
  \<open>Replace\<close> of the present key with it succeeds and writes the empty value: the
  comparison with \<open>nil\<close> is made on the interface that holds the slice and is false.
\<close>

theorem Replace_empty_value_is_written:
  "Serialize example_pkg (BytesIface None) = Inr None \<and>
   stored (example_store ''old'') ''k'' = Some \<lparr>val = ''old'', ttl = 30000000000\<rparr> \<and>
   fst (Replace example_pkg (example_store ''old'') ''k'' (BytesIface None) 60000000000) = None \<and>
   stored (snd (Replace example_pkg (example_store ''old'') ''k'' (BytesIface None) 60000000000)) ''k'' =
     Some \<lparr>val = [], ttl = 60000000000\<rparr>"
  by (simp add: Replace_def Set_def redis_Set_def redis_Exists_Val_def expval_def stored_def
      example_pkg_def example_store_def)

end
